theory Spec2Isabelle
  imports Complex_Main
begin

section \<open>Python primitives the planner relies on\<close>

text \<open>
  The exceptions that the built-in operations used by the agents can raise: a missing
  dictionary key, \<open>min\<close> of an empty iterable without a default, and a list index out of
  range.
\<close>

datatype error = KeyError string | ValueError | IndexError

text \<open>\<open>str(n)\<close> for an integer: its decimal digits, with a leading minus sign below zero.\<close>

definition digit_char :: "nat \<Rightarrow> char" where
  "digit_char n = ''0123456789'' ! n"

fun str_nat :: "nat \<Rightarrow> string" where
  "str_nat n = (if n < 10 then [digit_char n] else str_nat (n div 10) @ [digit_char (n mod 10)])"

declare str_nat.simps [simp del]

definition str_int :: "int \<Rightarrow> string" where
  "str_int i = (if i < 0 then CHR ''-'' # str_nat (nat (- i)) else str_nat (nat i))"

text \<open>
  \<open>min(iterable, default=d)\<close>: the first smallest item; on an empty iterable the default
  when one is given, and \<open>ValueError\<close> otherwise.
\<close>

fun py_min :: "int list \<Rightarrow> int option \<Rightarrow> error + int" where
  "py_min [] None = Inl ValueError"
| "py_min [] (Some d) = Inr d"
| "py_min (x # xs) _ = Inr (foldl (\<lambda>m y. if y < m then y else m) x xs)"

text \<open>\<open>d[k]\<close> on a dictionary and \<open>xs[i]\<close> on a list with a non-negative index.\<close>

definition py_dict_getitem :: "(string \<rightharpoonup> 'v) \<Rightarrow> string \<Rightarrow> error + 'v" where
  "py_dict_getitem d k = (case d k of None \<Rightarrow> Inl (KeyError k) | Some v \<Rightarrow> Inr v)"

definition py_list_getitem :: "'a list \<Rightarrow> nat \<Rightarrow> error + 'a" where
  "py_list_getitem xs i = (if i < length xs then Inr (xs ! i) else Inl IndexError)"

text \<open>\<open>range(n)\<close>: the numbers \<open>0, ..., n - 1\<close>, none when \<open>n \<le> 0\<close>.\<close>

definition py_range :: "int \<Rightarrow> nat list" where
  "py_range n = [0 ..< nat n]"

text \<open>
  Binary floating point, as far as \<open>round(3 + random.random(), 1)\<close> needs it. A double is
  the rational number it denotes. \<open>round_half_even\<close> is rounding to the nearest integer
  with ties to the even one. For \<open>0 \<le> u < 1\<close> the exact sum \<open>3 + u\<close> lies in \<open>[3, 4)\<close>,
  where the doubles are the multiples of \<open>2 ^ -51\<close>, and \<open>4\<close> is a double as well, so the
  floating-point sum is the exact sum rounded to that grid. \<open>round(x, 1)\<close> rounds the exact
  value of \<open>x\<close> to the nearest multiple of one tenth, ties to even, and returns the double
  nearest to it; the model keeps the decimal value \<open>k / 10\<close> for that double, which
  compares with \<open>3.0\<close> and \<open>4.0\<close> in the same way because both are doubles.
\<close>

definition round_half_even :: "rat \<Rightarrow> int" where
  "round_half_even x =
     (let f = \<lfloor>x\<rfloor>; d = x - of_int f
      in if d < 1 / 2 then f else if 1 / 2 < d then f + 1 else if even f then f else f + 1)"

definition float_add_3 :: "rat \<Rightarrow> rat" where
  "float_add_3 u = of_int (round_half_even ((3 + u) * 2 ^ 51)) / 2 ^ 51"

definition py_round_1 :: "rat \<Rightarrow> rat" where
  "py_round_1 x = of_int (round_half_even (x * 10)) / 10"


section \<open>Data model\<close>

text \<open>
  Python's integers are unbounded, so they are \<open>int\<close>; its strings are lists of characters,
  which the agents only concatenate.

  \<open>PlanRequest\<close> is the pydantic model of the source: four typed fields, no validator and
  no default. Constructing one stores the given values.
\<close>

record PlanRequest =
  from_city :: string
  to_city :: string
  budget :: int
  days :: int

definition mk_PlanRequest :: "string \<Rightarrow> string \<Rightarrow> int \<Rightarrow> int \<Rightarrow> PlanRequest" where
  "mk_PlanRequest f t b d = \<lparr>from_city = f, to_city = t, budget = b, days = d\<rparr>"

text \<open>
  \<open>METRICS\<close> is a module-level dictionary created with the two keys below; no key is ever
  added or removed, so it is a record of two counters.
\<close>

record Metrics =
  plans_created :: int
  agent_calls :: int

text \<open>
  The dictionaries built from literals with fixed keys are records whose fields are the
  keys. \<open>tasks\<close> is the one dictionary that a stage receives as \<open>Dict[str, str]\<close> and
  indexes by key, so it stays a map.
\<close>

record PlannerResult =
  tasks :: "string \<rightharpoonup> string"

record FlightOption =
  airline :: string
  price :: int
  depart :: string
  arrive :: string

record HotelOption =
  name :: string
  price_per_night :: int
  rating :: rat

record SearchResult =
  flights :: "FlightOption list"
  hotels :: "HotelOption list"
  places :: "string list"

record Breakdown =
  flight :: int
  hotel_per_night :: int
  food :: int
  transport :: int

record BudgetResult =
  total :: int
  status :: string
  breakdown :: Breakdown

text \<open>
  The summary's keys \<open>from\<close>, \<open>to\<close>, \<open>flights\<close>, \<open>hotels\<close> and \<open>budget\<close> carry the prefix
  \<open>sum_\<close>, and the keys of \<open>raw\<close> the prefix \<open>raw_\<close>, to keep them apart from the fields of
  the same name above.
\<close>

record PlanSummary =
  plan_id :: string
  sum_from :: string
  sum_to :: string
  sum_flights :: "FlightOption list"
  sum_hotels :: "HotelOption list"
  itinerary :: "string list"
  sum_budget :: BudgetResult

record Raw =
  raw_planner :: PlannerResult
  raw_search :: SearchResult
  raw_budget :: BudgetResult

record Response =
  summary :: PlanSummary
  raw :: Raw
  metrics :: Metrics
  generated_at :: string

text \<open>
  The values that one call of \<open>search_agent\<close> draws from the \<open>random\<close> module, in the order
  of the calls: \<open>randint(4000, 12000)\<close>, \<open>randint(4500, 14000)\<close>, \<open>randint(800, 2500)\<close>,
  \<open>random()\<close>, \<open>randint(1500, 4000)\<close>, \<open>random()\<close>. \<open>draws_in_range\<close> is what the module
  guarantees about them.
\<close>

record Draws =
  randint_1 :: int
  randint_2 :: int
  randint_3 :: int
  random_1 :: rat
  randint_4 :: int
  random_2 :: rat

definition draws_in_range :: "Draws \<Rightarrow> bool" where
  "draws_in_range r \<longleftrightarrow>
     4000 \<le> randint_1 r \<and> randint_1 r \<le> 12000 \<and>
     4500 \<le> randint_2 r \<and> randint_2 r \<le> 14000 \<and>
     800 \<le> randint_3 r \<and> randint_3 r \<le> 2500 \<and>
     0 \<le> random_1 r \<and> random_1 r < 1 \<and>
     1500 \<le> randint_4 r \<and> randint_4 r \<le> 4000 \<and>
     0 \<le> random_2 r \<and> random_2 r < 1"


section \<open>The agents\<close>

text \<open>
  Every agent takes the current \<open>METRICS\<close> and returns the updated one beside its result.
  Logging and the \<open>asyncio.sleep\<close> pauses change no value and are left out. An agent that
  raises returns \<open>Inl\<close> of the exception, with the counters as they stand at that point.
\<close>

definition planner_agent :: "Metrics \<Rightarrow> PlanRequest \<Rightarrow> PlannerResult \<times> Metrics" where
  "planner_agent m req =
     (let m1 = m\<lparr>agent_calls := agent_calls m + 1\<rparr>;
          t = [''flight_query'' \<mapsto> ''cheap flights from '' @ from_city req @ '' to '' @ to_city req,
               ''hotel_query'' \<mapsto> ''budget hotels in '' @ to_city req,
               ''places_query'' \<mapsto> ''top attractions in '' @ to_city req]
      in (\<lparr>tasks = t\<rparr>, m1))"

fun places_loop :: "(string \<rightharpoonup> string) \<Rightarrow> nat list \<Rightarrow> error + string list" where
  "places_loop t [] = Inr []"
| "places_loop t (i # is) =
     (case py_dict_getitem t ''places_query'' of
        Inl e \<Rightarrow> Inl e
      | Inr q \<Rightarrow>
          (case places_loop t is of
             Inl e \<Rightarrow> Inl e
           | Inr ps \<Rightarrow> Inr ((q @ '' - '' @ str_int (int i + 1)) # ps)))"

definition search_agent ::
  "Metrics \<Rightarrow> Draws \<Rightarrow> (string \<rightharpoonup> string) \<Rightarrow> (error + SearchResult) \<times> Metrics" where
  "search_agent m r t =
     (let m1 = m\<lparr>agent_calls := agent_calls m + 1\<rparr>;
          fs = [\<lparr>airline = ''AirFast'', price = randint_1 r, depart = ''06:00'', arrive = ''09:00''\<rparr>,
                \<lparr>airline = ''SkyGo'', price = randint_2 r, depart = ''12:00'', arrive = ''15:00''\<rparr>];
          hs = [\<lparr>name = ''Budget Inn'', price_per_night = randint_3 r,
                  rating = py_round_1 (float_add_3 (random_1 r))\<rparr>,
                \<lparr>name = ''Comfort Stay'', price_per_night = randint_4 r,
                  rating = py_round_1 (float_add_3 (random_2 r))\<rparr>]
      in case places_loop t (py_range 5) of
           Inl e \<Rightarrow> (Inl e, m1)
         | Inr ps \<Rightarrow> (Inr \<lparr>flights = fs, hotels = hs, places = ps\<rparr>, m1))"

definition budget_agent ::
  "Metrics \<Rightarrow> SearchResult \<Rightarrow> PlanRequest \<Rightarrow> (error + BudgetResult) \<times> Metrics" where
  "budget_agent m sr req =
     (let m1 = m\<lparr>agent_calls := agent_calls m + 1\<rparr>;
          d = max 1 (days req)
      in case py_min (map price (flights sr)) (Some 0) of
           Inl e \<Rightarrow> (Inl e, m1)
         | Inr cheapest_flight \<Rightarrow>
             (case py_min (map price_per_night (hotels sr)) (Some 0) of
                Inl e \<Rightarrow> (Inl e, m1)
              | Inr cheapest_hotel \<Rightarrow>
                  (let fd = 400 * d;
                       tr = 250 * d;
                       tot = cheapest_flight + (cheapest_hotel * d) + fd + tr;
                       st = (if tot \<le> budget req then ''within_budget'' else ''over_budget'')
                   in (Inr \<lparr>total = tot, status = st,
                            breakdown = \<lparr>flight = cheapest_flight, hotel_per_night = cheapest_hotel,
                                         food = fd, transport = tr\<rparr>\<rparr>, m1))))"

definition day_entry :: "string list \<Rightarrow> nat \<Rightarrow> error + string" where
  "day_entry ps d =
     (if ps \<noteq> [] then
        (case py_list_getitem ps (d mod length ps) of
           Inl e \<Rightarrow> Inl e
         | Inr p \<Rightarrow> Inr (''Day '' @ str_int (int d + 1) @ '': '' @ p))
      else Inr (''Day '' @ str_int (int d + 1) @ '': '' @ ''Local exploration''))"

fun itinerary_loop :: "string list \<Rightarrow> nat list \<Rightarrow> string list \<Rightarrow> error + string list" where
  "itinerary_loop ps [] acc = Inr acc"
| "itinerary_loop ps (d # ds) acc =
     (case day_entry ps d of
        Inl e \<Rightarrow> Inl e
      | Inr s \<Rightarrow> itinerary_loop ps ds (acc @ [s]))"

text \<open>\<open>uid\<close> is the string that \<open>str(uuid.uuid4())\<close> returns in this call.\<close>

definition summarizer_agent ::
  "Metrics \<Rightarrow> string \<Rightarrow> PlanRequest \<Rightarrow> SearchResult \<Rightarrow> BudgetResult \<Rightarrow>
   (error + PlanSummary) \<times> Metrics" where
  "summarizer_agent m uid req sr br =
     (let m1 = m\<lparr>agent_calls := agent_calls m + 1\<rparr>
      in case itinerary_loop (places sr) (py_range (days req)) [] of
           Inl e \<Rightarrow> (Inl e, m1)
         | Inr it \<Rightarrow>
             (Inr \<lparr>plan_id = uid, sum_from = from_city req, sum_to = to_city req,
                   sum_flights = flights sr, sum_hotels = hotels sr,
                   itinerary = it, sum_budget = br\<rparr>, m1))"


section \<open>The orchestration endpoint\<close>

text \<open>
  \<open>now\<close> is the string that \<open>time.strftime\<close> returns. The \<open>metrics\<close> entry of the response
  is the \<open>METRICS\<close> dictionary itself, read when the response is serialised, after all
  increments.
\<close>

definition create_plan ::
  "Metrics \<Rightarrow> Draws \<Rightarrow> string \<Rightarrow> string \<Rightarrow> PlanRequest \<Rightarrow> (error + Response) \<times> Metrics" where
  "create_plan m r uid now req =
     (let m0 = m\<lparr>plans_created := plans_created m + 1\<rparr>;
          (planner_res, m1) = planner_agent m0 req
      in case search_agent m1 r (tasks planner_res) of
           (Inl e, m2) \<Rightarrow> (Inl e, m2)
         | (Inr search_res, m2) \<Rightarrow>
             (case budget_agent m2 search_res req of
                (Inl e, m3) \<Rightarrow> (Inl e, m3)
              | (Inr budget_res, m3) \<Rightarrow>
                  (case summarizer_agent m3 uid req search_res budget_res of
                     (Inl e, m4) \<Rightarrow> (Inl e, m4)
                   | (Inr smry, m4) \<Rightarrow>
                       (Inr \<lparr>summary = smry,
                             raw = \<lparr>raw_planner = planner_res, raw_search = search_res,
                                    raw_budget = budget_res\<rparr>,
                             metrics = m4, generated_at = now\<rparr>, m4))))"

definition health :: "Metrics \<Rightarrow> string \<times> Metrics" where
  "health m = (''ok'', m)"


section \<open>Concrete scenarios\<close>

text \<open>
  The counters as the module creates them, and the search results of the two scenarios
  used below: two flights at 4000 and 5000 with two hotels at 1000 and 1500 a night, the
  budget of a three-day trip on them, and a search result with nothing in it.
\<close>

definition METRICS_init :: Metrics where
  "METRICS_init = \<lparr>plans_created = 0, agent_calls = 0\<rparr>"

definition scenario_search :: SearchResult where
  "scenario_search =
     \<lparr>flights = [\<lparr>airline = ''AirFast'', price = 4000, depart = ''06:00'', arrive = ''09:00''\<rparr>,
                 \<lparr>airline = ''SkyGo'', price = 5000, depart = ''12:00'', arrive = ''15:00''\<rparr>],
      hotels = [\<lparr>name = ''Budget Inn'', price_per_night = 1000, rating = 16 / 5\<rparr>,
                \<lparr>name = ''Comfort Stay'', price_per_night = 1500, rating = 4\<rparr>],
      places = [''top attractions in Goa - 1'', ''top attractions in Goa - 2'']\<rparr>"

definition scenario_budget :: BudgetResult where
  "scenario_budget =
     \<lparr>total = 8950, status = ''within_budget'',
      breakdown = \<lparr>flight = 4000, hotel_per_night = 1000, food = 1200, transport = 750\<rparr>\<rparr>"

definition empty_search :: SearchResult where
  "empty_search = \<lparr>flights = [], hotels = [], places = []\<rparr>"

text \<open>
  One run of the random module that gives those prices, with the two samples \<open>0.25\<close> and
  \<open>0.96875\<close> for the ratings (both are doubles, and so are \<open>3.25\<close> and \<open>3.96875\<close>), and
  the search result that \<open>search_agent\<close> builds from it for a trip to Goa.
\<close>

definition scenario_draws :: Draws where
  "scenario_draws =
     \<lparr>randint_1 = 4000, randint_2 = 5000, randint_3 = 1000, random_1 = 1 / 4,
      randint_4 = 1500, random_2 = 31 / 32\<rparr>"

definition goa_search :: SearchResult where
  "goa_search =
     \<lparr>flights = [\<lparr>airline = ''AirFast'', price = 4000, depart = ''06:00'', arrive = ''09:00''\<rparr>,
                 \<lparr>airline = ''SkyGo'', price = 5000, depart = ''12:00'', arrive = ''15:00''\<rparr>],
      hotels = [\<lparr>name = ''Budget Inn'', price_per_night = 1000, rating = 16 / 5\<rparr>,
                \<lparr>name = ''Comfort Stay'', price_per_night = 1500, rating = 4\<rparr>],
      places = [''top attractions in Goa - 1'', ''top attractions in Goa - 2'',
                ''top attractions in Goa - 3'', ''top attractions in Goa - 4'',
                ''top attractions in Goa - 5'']\<rparr>"

text \<open>A run whose two samples, \<open>0.953125\<close> and \<open>0.96875\<close>, both reach \<open>0.95\<close>.\<close>

definition high_draws :: Draws where
  "high_draws =
     \<lparr>randint_1 = 4000, randint_2 = 5000, randint_3 = 1000, random_1 = 61 / 64,
      randint_4 = 1500, random_2 = 31 / 32\<rparr>"


section \<open>Facts about the primitives\<close>

lemma py_min_step_is_min: "(\<lambda>m y. if y < m then y else m) = (\<lambda>m y :: int. min y m)"
  by (auto simp: fun_eq_iff)

lemma py_min_Cons: "py_min (x # xs) d = Inr (Min (set (x # xs)))"
proof -
  have "Min (set (x # xs)) = fold min xs x"
    by (rule Min.set_eq_fold)
  then show ?thesis
    by (simp only: py_min.simps py_min_step_is_min foldl_conv_fold)
qed

lemma py_min_default: "py_min xs (Some d) = Inr (if xs = [] then d else Min (set xs))"
  by (cases xs) (simp_all add: py_min_Cons del: py_min.simps(3))

lemma day_entry_Inr:
  "day_entry ps d =
     Inr (''Day '' @ str_int (int d + 1) @ '': '' @
          (if ps \<noteq> [] then ps ! (d mod length ps) else ''Local exploration''))"
  by (simp add: day_entry_def py_list_getitem_def)

lemma itinerary_loop_map:
  "itinerary_loop ps ds acc =
     Inr (acc @ map (\<lambda>d. ''Day '' @ str_int (int d + 1) @ '': '' @
                     (if ps \<noteq> [] then ps ! (d mod length ps) else ''Local exploration'')) ds)"
  by (induction ds arbitrary: acc) (simp_all add: day_entry_Inr)

lemma places_loop_map:
  "t ''places_query'' = Some q \<Longrightarrow>
   places_loop t is = Inr (map (\<lambda>i. q @ '' - '' @ str_int (int i + 1)) is)"
  by (induction "is") (simp_all add: py_dict_getitem_def)

lemma str_int_1_to_5:
  "str_int 1 = ''1''" "str_int 2 = ''2''" "str_int 3 = ''3''" "str_int 4 = ''4''" "str_int 5 = ''5''"
  by code_simp+

lemma py_range_5: "py_range 5 = [0, 1, 2, 3, 4]"
  by code_simp

text \<open>
  Rounding never leaves an interval with integer ends, so a rating stays between 3 and 4.
\<close>

lemma round_half_even_le:
  assumes "x \<le> of_int n"
  shows "round_half_even x \<le> n"
proof -
  have f: "\<lfloor>x\<rfloor> \<le> n"
    using assms by (simp add: floor_le_iff)
  show ?thesis
  proof (cases "x = of_int \<lfloor>x\<rfloor>")
    case True
    then have "x - of_int \<lfloor>x\<rfloor> < 1 / 2"
      by simp
    then show ?thesis
      using f by (simp add: round_half_even_def Let_def)
  next
    case False
    then have ne: "of_int \<lfloor>x\<rfloor> \<noteq> x"
      by (rule not_sym)
    have "of_int \<lfloor>x\<rfloor> < x"
      by (rule le_neq_trans [OF of_int_floor_le ne])
    then have "of_int \<lfloor>x\<rfloor> < (of_int n :: rat)"
      using assms by simp
    then have "\<lfloor>x\<rfloor> + 1 \<le> n"
      by simp
    then show ?thesis
      using f by (simp add: round_half_even_def Let_def)
  qed
qed

lemma round_half_even_ge:
  assumes "of_int n \<le> x"
  shows "n \<le> round_half_even x"
proof -
  have "n \<le> \<lfloor>x\<rfloor>"
    using assms by (simp add: le_floor_iff)
  then show ?thesis
    by (simp add: round_half_even_def Let_def)
qed

lemma float_add_3_range:
  assumes "0 \<le> u" and "u < 1"
  shows "3 \<le> float_add_3 u \<and> float_add_3 u \<le> 4"
proof -
  have lo: "of_int (3 * 2 ^ 51) \<le> (3 + u) * 2 ^ 51"
    using assms by simp
  have hi: "(3 + u) * 2 ^ 51 \<le> of_int (4 * 2 ^ 51)"
    using assms by simp
  have "3 * 2 ^ 51 \<le> round_half_even ((3 + u) * 2 ^ 51)"
    by (rule round_half_even_ge [OF lo])
  moreover have "round_half_even ((3 + u) * 2 ^ 51) \<le> 4 * 2 ^ 51"
    by (rule round_half_even_le [OF hi])
  ultimately have "(of_int (3 * 2 ^ 51) :: rat) \<le> of_int (round_half_even ((3 + u) * 2 ^ 51))"
    and "(of_int (round_half_even ((3 + u) * 2 ^ 51)) :: rat) \<le> of_int (4 * 2 ^ 51)"
    by (simp_all only: of_int_le_iff)
  then show ?thesis
    by (simp add: float_add_3_def field_simps)
qed

lemma py_round_1_range:
  assumes "3 \<le> x" and "x \<le> 4"
  shows "3 \<le> py_round_1 x \<and> py_round_1 x \<le> 4"
proof -
  have lo: "of_int 30 \<le> x * 10" and hi: "x * 10 \<le> of_int 40"
    using assms by simp_all
  have "30 \<le> round_half_even (x * 10)"
    by (rule round_half_even_ge [OF lo])
  moreover have "round_half_even (x * 10) \<le> 40"
    by (rule round_half_even_le [OF hi])
  ultimately have "(of_int 30 :: rat) \<le> of_int (round_half_even (x * 10))"
    and "(of_int (round_half_even (x * 10)) :: rat) \<le> of_int 40"
    by (simp_all only: of_int_le_iff)
  then show ?thesis
    by (simp add: py_round_1_def)
qed

lemma rating_range:
  assumes "0 \<le> u" and "u < 1"
  shows "3 \<le> py_round_1 (float_add_3 u)" and "py_round_1 (float_add_3 u) \<le> 4"
  using py_round_1_range float_add_3_range [OF assms] by blast+

text \<open>
  From a sample of \<open>0.95\<close> on, the sum is at least the first double above \<open>3.95\<close>, whose
  tenfold lies above \<open>39.5\<close>, so the rating is \<open>4.0\<close>.
\<close>

lemma round_half_even_ge_half:
  assumes "of_int n - 1 / 2 < x"
  shows "n \<le> round_half_even x"
proof (cases "n \<le> \<lfloor>x\<rfloor>")
  case True
  then show ?thesis
    by (simp add: round_half_even_def Let_def)
next
  case False
  have "of_int (n - 1) \<le> x"
    using assms by simp
  then have "n - 1 \<le> \<lfloor>x\<rfloor>"
    by (simp only: le_floor_iff)
  with False have f: "\<lfloor>x\<rfloor> = n - 1"
    by simp
  have "1 / 2 < x - of_int \<lfloor>x\<rfloor>"
    using assms by (simp add: f)
  then show ?thesis
    by (simp add: round_half_even_def Let_def f)
qed

lemma rating_high_sample:
  assumes "19 / 20 \<le> u" and "u < 1"
  shows "py_round_1 (float_add_3 u) = 4"
proof -
  have "of_int 8894609264056730 - 1 / 2 < (3 + u) * 2 ^ 51"
    using assms(1) by simp
  then have "8894609264056730 \<le> round_half_even ((3 + u) * 2 ^ 51)"
    by (rule round_half_even_ge_half)
  then have "(of_int 8894609264056730 :: rat) \<le> of_int (round_half_even ((3 + u) * 2 ^ 51))"
    by (simp only: of_int_le_iff)
  then have "of_int 40 - 1 / 2 < float_add_3 u * 10"
    by (simp add: float_add_3_def field_simps)
  then have lo: "40 \<le> round_half_even (float_add_3 u * 10)"
    by (rule round_half_even_ge_half)
  have "0 \<le> u"
    using assms(1) by simp
  then have "float_add_3 u \<le> 4"
    using float_add_3_range [of u] assms(2) by simp
  then have "float_add_3 u * 10 \<le> of_int 40"
    by simp
  then have hi: "round_half_even (float_add_3 u * 10) \<le> 40"
    by (rule round_half_even_le)
  from lo hi have "round_half_even (float_add_3 u * 10) = 40"
    by simp
  then show ?thesis
    by (simp add: py_round_1_def)
qed


section \<open>The planning stage\<close>

lemma planner_agent_value:
  "planner_agent m req =
     (\<lparr>tasks = [''flight_query'' \<mapsto> ''cheap flights from '' @ from_city req @ '' to '' @ to_city req,
                ''hotel_query'' \<mapsto> ''budget hotels in '' @ to_city req,
                ''places_query'' \<mapsto> ''top attractions in '' @ to_city req]\<rparr>,
      m\<lparr>agent_calls := agent_calls m + 1\<rparr>)"
  by (simp add: planner_agent_def Let_def)

text \<open>
  C8. \<open>planner_agent\<close> returns the same tasks for the same request whatever the counters
  are, so also when it is called a second time after the first call has changed them; the
  tasks are the three queries built from the request's cities.
\<close>

theorem planner_agent_deterministic:
  "fst (planner_agent m1 req) = fst (planner_agent m2 req) \<and>
   fst (planner_agent (snd (planner_agent m1 req)) req) = fst (planner_agent m1 req) \<and>
   tasks (fst (planner_agent m1 req)) =
     [''flight_query'' \<mapsto> ''cheap flights from '' @ from_city req @ '' to '' @ to_city req,
      ''hotel_query'' \<mapsto> ''budget hotels in '' @ to_city req,
      ''places_query'' \<mapsto> ''top attractions in '' @ to_city req]"
  by (simp add: planner_agent_value)


section \<open>The search stage\<close>

lemma search_agent_value:
  assumes "t ''places_query'' = Some q"
  shows "search_agent m r t =
     (Inr \<lparr>flights = [\<lparr>airline = ''AirFast'', price = randint_1 r, depart = ''06:00'', arrive = ''09:00''\<rparr>,
                      \<lparr>airline = ''SkyGo'', price = randint_2 r, depart = ''12:00'', arrive = ''15:00''\<rparr>],
           hotels = [\<lparr>name = ''Budget Inn'', price_per_night = randint_3 r,
                       rating = py_round_1 (float_add_3 (random_1 r))\<rparr>,
                     \<lparr>name = ''Comfort Stay'', price_per_night = randint_4 r,
                       rating = py_round_1 (float_add_3 (random_2 r))\<rparr>],
           places = [q @ '' - 1'', q @ '' - 2'', q @ '' - 3'', q @ '' - 4'', q @ '' - 5'']\<rparr>,
      m\<lparr>agent_calls := agent_calls m + 1\<rparr>)"
proof -
  have "places_loop t (py_range 5) =
          Inr [q @ '' - 1'', q @ '' - 2'', q @ '' - 3'', q @ '' - 4'', q @ '' - 5'']"
    unfolding places_loop_map [of t q, OF assms] py_range_5
    by (simp add: str_int_1_to_5)
  then show ?thesis
    by (simp add: search_agent_def Let_def)
qed

lemma search_agent_missing_key:
  assumes "t ''places_query'' = None"
  shows "search_agent m r t = (Inl (KeyError ''places_query''), m\<lparr>agent_calls := agent_calls m + 1\<rparr>)"
  by (simp add: search_agent_def Let_def py_range_5 py_dict_getitem_def assms)

lemma search_agent_metrics:
  "snd (search_agent m r t) = m\<lparr>agent_calls := agent_calls m + 1\<rparr>"
  by (simp add: search_agent_def Let_def split: sum.split)

text \<open>
  C5. For every task set, that is every dictionary with a \<open>places_query\<close> entry,
  \<open>search_agent\<close> returns a search result with two flights, two hotels and five places,
  the \<open>i\<close>-th place being the query followed by \<open> - i\<close>.
\<close>

theorem search_agent_shape:
  assumes "t ''places_query'' = Some q"
  shows "\<exists>sr. fst (search_agent m r t) = Inr sr \<and>
           length (flights sr) = 2 \<and> length (hotels sr) = 2 \<and> length (places sr) = 5 \<and>
           places sr = [q @ '' - 1'', q @ '' - 2'', q @ '' - 3'', q @ '' - 4'', q @ '' - 5''] \<and>
           (\<forall>i \<in> {1 .. 5}. places sr ! (i - 1) = q @ '' - '' @ str_int (int i))"
proof -
  have "\<forall>i \<in> {1 .. 5 :: nat}. [q @ '' - 1'', q @ '' - 2'', q @ '' - 3'', q @ '' - 4'', q @ '' - 5''] ! (i - 1)
          = q @ '' - '' @ str_int (int i)"
  proof
    fix i :: nat
    assume "i \<in> {1 .. 5}"
    then consider "i = 1" | "i = 2" | "i = 3" | "i = 4" | "i = 5"
      by (auto simp: le_Suc_eq numeral_eq_Suc)
    then show "[q @ '' - 1'', q @ '' - 2'', q @ '' - 3'', q @ '' - 4'', q @ '' - 5''] ! (i - 1)
                 = q @ '' - '' @ str_int (int i)"
      by cases (simp_all add: str_int_1_to_5 numeral_eq_Suc)
  qed
  then show ?thesis
    by (simp add: search_agent_value [of t q, OF assms])
qed

theorem search_agent_shape_witness:
  "tasks (fst (planner_agent METRICS_init (mk_PlanRequest ''Delhi'' ''Goa'' 20000 3))) ''places_query''
     = Some ''top attractions in Goa'' \<and>
   (1 :: nat) \<in> {1 .. 5} \<and> (5 :: nat) \<in> {1 .. 5} \<and>
   (\<exists>sr. fst (search_agent METRICS_init scenario_draws
                (tasks (fst (planner_agent METRICS_init (mk_PlanRequest ''Delhi'' ''Goa'' 20000 3))))) = Inr sr \<and>
      length (flights sr) = 2 \<and> length (hotels sr) = 2 \<and> length (places sr) = 5 \<and>
      places sr ! (1 - 1) = ''top attractions in Goa - 1'' \<and>
      places sr ! (5 - 1) = ''top attractions in Goa - 5'')"
proof -
  let ?t = "tasks (fst (planner_agent METRICS_init (mk_PlanRequest ''Delhi'' ''Goa'' 20000 3)))"
  have q: "?t ''places_query'' = Some ''top attractions in Goa''"
    by (simp add: planner_agent_value mk_PlanRequest_def)
  have i1: "(1 :: nat) \<in> {1 .. 5}" and i5: "(5 :: nat) \<in> {1 .. 5}"
    by simp_all
  from search_agent_shape [of ?t "''top attractions in Goa''" METRICS_init scenario_draws, OF q]
  obtain sr where sr:
    "fst (search_agent METRICS_init scenario_draws ?t) = Inr sr"
    "length (flights sr) = 2" "length (hotels sr) = 2" "length (places sr) = 5"
    "\<forall>i \<in> {1 .. 5}. places sr ! (i - 1) = ''top attractions in Goa'' @ '' - '' @ str_int (int i)"
    by blast
  have p1: "places sr ! (1 - 1) = ''top attractions in Goa - 1''"
    using sr(5) [rule_format, OF i1] by (simp add: str_int_1_to_5)
  have p5: "places sr ! (5 - 1) = ''top attractions in Goa - 5''"
    using sr(5) [rule_format, OF i5] by (simp add: str_int_1_to_5)
  from q i1 i5 sr(1-4) p1 p5 show ?thesis
    by blast
qed

text \<open>
  C9. A rating is not always below 4: a sample of \<open>0.96875\<close> gives \<open>3.96875\<close>, which rounds
  to \<open>4.0\<close>. Every sample from 0.95 on does.
\<close>

theorem hotel_rating_reaches_4_counterexample:
  "draws_in_range scenario_draws \<and>
   fst (search_agent METRICS_init scenario_draws
         (tasks (fst (planner_agent METRICS_init (mk_PlanRequest ''Delhi'' ''Goa'' 20000 3))))) =
     Inr goa_search \<and>
   rating (hotels goa_search ! 1) = 4 \<and>
   \<not> rating (hotels goa_search ! 1) < 4"
proof -
  have "py_round_1 (float_add_3 (1 / 4)) = 16 / 5" and "py_round_1 (float_add_3 (31 / 32)) = 4"
    by code_simp+
  then show ?thesis
    by (simp add: draws_in_range_def scenario_draws_def goa_search_def planner_agent_value
        mk_PlanRequest_def search_agent_value [where q = "''top attractions in Goa''"])
qed

text \<open>
  C9, as the code has it. For samples in \<open>[0, 1)\<close>, each hotel's rating in a search result
  that \<open>search_agent\<close> returns is \<open>3 +\<close> the sample, rounded to one decimal place, and lies
  in the closed interval from 3 to 4; a sample of \<open>0.95\<close> or more gives the rating \<open>4.0\<close>.
\<close>

theorem hotel_rating_closed_range:
  assumes "draws_in_range r" and "fst (search_agent m r t) = Inr sr"
  shows "map rating (hotels sr) =
           [py_round_1 (float_add_3 (random_1 r)), py_round_1 (float_add_3 (random_2 r))] \<and>
         (\<forall>h \<in> set (hotels sr). 3 \<le> rating h \<and> rating h \<le> 4 \<and> (\<exists>k. rating h = of_int k / 10)) \<and>
         (19 / 20 \<le> random_1 r \<longrightarrow> rating (hotels sr ! 0) = 4) \<and>
         (19 / 20 \<le> random_2 r \<longrightarrow> rating (hotels sr ! 1) = 4)"
proof -
  from assms(1) have u1: "0 \<le> random_1 r" "random_1 r < 1" and u2: "0 \<le> random_2 r" "random_2 r < 1"
    by (simp_all add: draws_in_range_def)
  from assms(2) have h: "hotels sr =
      [\<lparr>name = ''Budget Inn'', price_per_night = randint_3 r,
         rating = py_round_1 (float_add_3 (random_1 r))\<rparr>,
       \<lparr>name = ''Comfort Stay'', price_per_night = randint_4 r,
         rating = py_round_1 (float_add_3 (random_2 r))\<rparr>]"
    by (auto simp: search_agent_def Let_def split: sum.splits)
  have k: "\<exists>k. py_round_1 x = of_int k / 10" for x
    by (auto simp: py_round_1_def)
  have range: "\<forall>h \<in> set (hotels sr). 3 \<le> rating h \<and> rating h \<le> 4 \<and> (\<exists>k. rating h = of_int k / 10)"
    using rating_range [OF u1] rating_range [OF u2] k by (simp add: h)
  have high1: "19 / 20 \<le> random_1 r \<longrightarrow> rating (hotels sr ! 0) = 4"
    using rating_high_sample [of "random_1 r"] u1(2) by (simp add: h)
  have high2: "19 / 20 \<le> random_2 r \<longrightarrow> rating (hotels sr ! 1) = 4"
    using rating_high_sample [of "random_2 r"] u2(2) by (simp add: h)
  from range high1 high2 show ?thesis
    by (simp add: h)
qed

theorem hotel_rating_closed_range_witness:
  "draws_in_range scenario_draws \<and>
   fst (search_agent METRICS_init scenario_draws
         (tasks (fst (planner_agent METRICS_init (mk_PlanRequest ''Delhi'' ''Goa'' 20000 3))))) =
     Inr goa_search \<and>
   map rating (hotels goa_search) = [16 / 5, 4] \<and>
   list_all (\<lambda>h. 3 \<le> rating h \<and> rating h \<le> 4) (hotels goa_search) \<and>
   19 / 20 \<le> random_2 scenario_draws \<and> rating (hotels goa_search ! 1) = 4 \<and>
   draws_in_range high_draws \<and>
   19 / 20 \<le> random_1 high_draws \<and> 19 / 20 \<le> random_2 high_draws \<and>
   (\<exists>sr. fst (search_agent METRICS_init high_draws
                (tasks (fst (planner_agent METRICS_init (mk_PlanRequest ''Delhi'' ''Goa'' 20000 3))))) =
            Inr sr \<and>
         rating (hotels sr ! 0) = 4 \<and> rating (hotels sr ! 1) = 4)"
proof -
  let ?t = "tasks (fst (planner_agent METRICS_init (mk_PlanRequest ''Delhi'' ''Goa'' 20000 3)))"
  have q: "?t ''places_query'' = Some ''top attractions in Goa''"
    by (simp add: planner_agent_value mk_PlanRequest_def)
  have d: "draws_in_range scenario_draws"
    by (simp add: draws_in_range_def scenario_draws_def)
  have "py_round_1 (float_add_3 (1 / 4)) = 16 / 5" and "py_round_1 (float_add_3 (31 / 32)) = 4"
    by code_simp+
  then have s: "fst (search_agent METRICS_init scenario_draws ?t) = Inr goa_search"
    by (simp add: scenario_draws_def goa_search_def search_agent_value [of ?t "''top attractions in Goa''", OF q])
  have m: "map rating (hotels goa_search) = [16 / 5, 4]"
    by (simp add: goa_search_def)
  have u2: "19 / 20 \<le> random_2 scenario_draws"
    by (simp add: scenario_draws_def)
  note low = hotel_rating_closed_range [OF d s]
  from low have la: "list_all (\<lambda>h. 3 \<le> rating h \<and> rating h \<le> 4) (hotels goa_search)"
    by (simp add: list_all_iff)
  from low u2 have r2: "rating (hotels goa_search ! 1) = 4"
    by blast
  have hd: "draws_in_range high_draws"
    and h1: "19 / 20 \<le> random_1 high_draws" and h2: "19 / 20 \<le> random_2 high_draws"
    by (simp_all add: draws_in_range_def high_draws_def)
  obtain sr where hs: "fst (search_agent METRICS_init high_draws ?t) = Inr sr"
    by (simp add: search_agent_value [of ?t "''top attractions in Goa''", OF q])
  note high = hotel_rating_closed_range [OF hd hs]
  from high h1 have hr1: "rating (hotels sr ! 0) = 4"
    by blast
  from high h2 have hr2: "rating (hotels sr ! 1) = 4"
    by blast
  from d s m la u2 r2 hd h1 h2 hs hr1 hr2 show ?thesis
    by blast
qed


section \<open>The budget stage\<close>

text \<open>The value of \<open>budget_agent\<close> on any input, with the two minima written out.\<close>

lemma budget_agent_value:
  "budget_agent m sr req =
     (Inr \<lparr>total = (if flights sr = [] then 0 else Min (price ` set (flights sr)))
                   + (if hotels sr = [] then 0 else Min (price_per_night ` set (hotels sr))) * max 1 (days req)
                   + 400 * max 1 (days req) + 250 * max 1 (days req),
           status = (if (if flights sr = [] then 0 else Min (price ` set (flights sr)))
                        + (if hotels sr = [] then 0 else Min (price_per_night ` set (hotels sr))) * max 1 (days req)
                        + 400 * max 1 (days req) + 250 * max 1 (days req) \<le> budget req
                     then ''within_budget'' else ''over_budget''),
           breakdown = \<lparr>flight = (if flights sr = [] then 0 else Min (price ` set (flights sr))),
                        hotel_per_night = (if hotels sr = [] then 0 else Min (price_per_night ` set (hotels sr))),
                        food = 400 * max 1 (days req), transport = 250 * max 1 (days req)\<rparr>\<rparr>,
      m\<lparr>agent_calls := agent_calls m + 1\<rparr>)"
  by (simp add: budget_agent_def py_min_default Let_def)

text \<open>
  C1. For every request and every search result with at least one flight and one hotel,
  \<open>budget_agent\<close> returns a budget whose breakdown holds the smallest flight price, the
  smallest hotel price per night, food at 400 a day and transport at 250 a day, for
  \<open>max(1, req.days)\<close> days; whose total is the flight plus the hotel for those days plus
  food plus transport; and whose status is \<open>within_budget\<close> when the total is at most the
  request's budget and \<open>over_budget\<close> otherwise.
\<close>

theorem budget_agent_computed:
  assumes "flights sr \<noteq> []" and "hotels sr \<noteq> []"
  shows "\<exists>br. fst (budget_agent m sr req) = Inr br \<and>
           flight (breakdown br) = Min (price ` set (flights sr)) \<and>
           hotel_per_night (breakdown br) = Min (price_per_night ` set (hotels sr)) \<and>
           food (breakdown br) = 400 * max 1 (days req) \<and>
           transport (breakdown br) = 250 * max 1 (days req) \<and>
           total br = flight (breakdown br) + hotel_per_night (breakdown br) * max 1 (days req)
                        + food (breakdown br) + transport (breakdown br) \<and>
           status br = (if total br \<le> budget req then ''within_budget'' else ''over_budget'')"
  using assms by (simp add: budget_agent_value)

theorem budget_agent_computed_witness:
  "flights scenario_search \<noteq> [] \<and> hotels scenario_search \<noteq> [] \<and>
   (\<exists>br. fst (budget_agent METRICS_init scenario_search (mk_PlanRequest ''Delhi'' ''Goa'' 20000 3)) = Inr br \<and>
      flight (breakdown br) = 4000 \<and> hotel_per_night (breakdown br) = 1000 \<and>
      food (breakdown br) = 1200 \<and> transport (breakdown br) = 750 \<and>
      total br = 8950 \<and> status br = ''within_budget'')"
  using budget_agent_computed [of scenario_search METRICS_init "mk_PlanRequest ''Delhi'' ''Goa'' 20000 3"]
  by (auto simp: scenario_search_def mk_PlanRequest_def)

text \<open>
  C3. The total is not the plain sum of the four breakdown entries: the hotel entry is a
  price per night and enters the total once per day. For the three-day trip of the
  scenario the total is 8950 while the four entries add up to 6950.
\<close>

theorem budget_total_literal_sum_counterexample:
  "fst (budget_agent METRICS_init scenario_search (mk_PlanRequest ''Delhi'' ''Goa'' 20000 3)) =
     Inr scenario_budget \<and>
   total scenario_budget \<noteq>
     flight (breakdown scenario_budget) + hotel_per_night (breakdown scenario_budget)
       + food (breakdown scenario_budget) + transport (breakdown scenario_budget)"
  by (simp add: budget_agent_value scenario_search_def scenario_budget_def mk_PlanRequest_def)

text \<open>
  C3, as the code has it. For every input the total is the flight entry, plus the hotel
  entry times \<open>max(1, req.days)\<close>, plus the food and transport entries; it exceeds the plain
  sum of the four entries by the hotel entry times one less than that number of days.
\<close>

theorem budget_total_per_night_sum:
  "\<exists>br. fst (budget_agent m sr req) = Inr br \<and>
     total br = flight (breakdown br) + hotel_per_night (breakdown br) * max 1 (days req)
                  + food (breakdown br) + transport (breakdown br) \<and>
     total br - (flight (breakdown br) + hotel_per_night (breakdown br)
                  + food (breakdown br) + transport (breakdown br))
       = hotel_per_night (breakdown br) * (max 1 (days req) - 1)"
  by (simp add: budget_agent_value algebra_simps)

text \<open>
  C7. \<open>budget_agent\<close> returns a budget on every input, raising nothing. With no flights
  the flight entry is 0, with no hotels the hotel entry is 0, and for a one-day request
  with neither the total is food plus transport, 650.
\<close>

theorem budget_agent_always_succeeds:
  "\<exists>br. fst (budget_agent m sr req) = Inr br \<and>
     (flights sr = [] \<longrightarrow> flight (breakdown br) = 0) \<and>
     (hotels sr = [] \<longrightarrow> hotel_per_night (breakdown br) = 0) \<and>
     (flights sr = [] \<and> hotels sr = [] \<and> days req = 1 \<longrightarrow>
        total br = food (breakdown br) + transport (breakdown br) \<and> total br = 650)"
  by (simp add: budget_agent_value)

theorem budget_agent_always_succeeds_witness:
  "flights empty_search = [] \<and> hotels empty_search = [] \<and>
   days (mk_PlanRequest ''Delhi'' ''Goa'' 20000 1) = 1 \<and>
   (\<exists>br. fst (budget_agent METRICS_init empty_search (mk_PlanRequest ''Delhi'' ''Goa'' 20000 1)) = Inr br \<and>
      flight (breakdown br) = 0 \<and> hotel_per_night (breakdown br) = 0 \<and> total br = 650)"
  using budget_agent_always_succeeds [of METRICS_init empty_search "mk_PlanRequest ''Delhi'' ''Goa'' 20000 1"]
  by (auto simp: empty_search_def mk_PlanRequest_def)


section \<open>The summary stage\<close>

text \<open>The value of \<open>summarizer_agent\<close> on any input, with the loop written as a map.\<close>

lemma summarizer_agent_value:
  "summarizer_agent m uid req sr br =
     (Inr \<lparr>plan_id = uid, sum_from = from_city req, sum_to = to_city req,
           sum_flights = flights sr, sum_hotels = hotels sr,
           itinerary = map (\<lambda>d. ''Day '' @ str_int (int d + 1) @ '': '' @
                              (if places sr \<noteq> [] then places sr ! (d mod length (places sr))
                               else ''Local exploration'')) [0 ..< nat (days req)],
           sum_budget = br\<rparr>,
      m\<lparr>agent_calls := agent_calls m + 1\<rparr>)"
  by (simp add: summarizer_agent_def itinerary_loop_map py_range_def Let_def)

text \<open>
  C2. For every request of \<open>n \<ge> 1\<close> days and every search result, \<open>summarizer_agent\<close>
  returns a summary whose itinerary has exactly \<open>n\<close> entries; entry \<open>d\<close>, counted from 0, is
  \<open>Day d+1: \<close> followed by the place at position \<open>d mod len(places)\<close> when there are places
  and by \<open>Local exploration\<close> when there are none.
\<close>

theorem summarizer_itinerary:
  assumes "days req = int n" and "1 \<le> n"
  shows "\<exists>s. fst (summarizer_agent m uid req sr br) = Inr s \<and>
           length (itinerary s) = n \<and>
           (\<forall>d < n. itinerary s ! d =
              ''Day '' @ str_int (int d + 1) @ '': '' @
              (if places sr \<noteq> [] then places sr ! (d mod length (places sr))
               else ''Local exploration''))"
  using assms by (simp add: summarizer_agent_value)

theorem summarizer_itinerary_witness:
  "days (mk_PlanRequest ''Delhi'' ''Goa'' 20000 3) = int 3 \<and> 1 \<le> (3 :: nat) \<and>
   (\<exists>s. fst (summarizer_agent METRICS_init ''id-1'' (mk_PlanRequest ''Delhi'' ''Goa'' 20000 3)
              scenario_search scenario_budget) = Inr s \<and>
      length (itinerary s) = 3 \<and>
      itinerary s ! 0 = ''Day 1: top attractions in Goa - 1'' \<and>
      itinerary s ! 1 = ''Day 2: top attractions in Goa - 2'' \<and>
      itinerary s ! 2 = ''Day 3: top attractions in Goa - 1'')"
proof -
  have d: "days (mk_PlanRequest ''Delhi'' ''Goa'' 20000 3) = int 3"
    by (simp add: mk_PlanRequest_def)
  have n: "1 \<le> (3 :: nat)"
    by simp
  from summarizer_itinerary [OF d n, of METRICS_init "''id-1''" scenario_search scenario_budget]
  obtain s where s:
    "fst (summarizer_agent METRICS_init ''id-1'' (mk_PlanRequest ''Delhi'' ''Goa'' 20000 3)
            scenario_search scenario_budget) = Inr s"
    "length (itinerary s) = 3"
    "\<forall>d < 3. itinerary s ! d =
        ''Day '' @ str_int (int d + 1) @ '': '' @
        (if places scenario_search \<noteq> [] then places scenario_search ! (d mod length (places scenario_search))
         else ''Local exploration'')"
    by blast
  have ne: "places scenario_search \<noteq> []"
    and len: "length (places scenario_search) = 2"
    and p0: "places scenario_search ! 0 = ''top attractions in Goa - 1''"
    and p1: "places scenario_search ! Suc 0 = ''top attractions in Goa - 2''"
    by (simp_all add: scenario_search_def)
  have e0: "itinerary s ! 0 = ''Day 1: top attractions in Goa - 1''"
    using s(3) [rule_format, of 0] by (simp add: ne len p0 str_int_1_to_5)
  have e1: "itinerary s ! 1 = ''Day 2: top attractions in Goa - 2''"
    using s(3) [rule_format, of 1] by (simp add: ne len p1 str_int_1_to_5)
  have e2: "itinerary s ! 2 = ''Day 3: top attractions in Goa - 1''"
    using s(3) [rule_format, of 2] by (simp add: ne len p0 str_int_1_to_5)
  from d n s(1,2) e0 e1 e2 show ?thesis
    by blast
qed


section \<open>The pipeline\<close>

lemma create_plan_counters:
  "snd (create_plan m r uid now req) =
     m\<lparr>plans_created := plans_created m + 1, agent_calls := agent_calls m + 4\<rparr>"
  by (simp add: create_plan_def planner_agent_value budget_agent_value summarizer_agent_value
      search_agent_value [where q = "''top attractions in '' @ to_city req"] Let_def)

lemma create_plan_value:
  "\<exists>sr br s.
     fst (search_agent m r (tasks (fst (planner_agent m req)))) = Inr sr \<and>
     fst (budget_agent m sr req) = Inr br \<and>
     fst (summarizer_agent m uid req sr br) = Inr s \<and>
     fst (create_plan m r uid now req) =
       Inr \<lparr>summary = s,
            raw = \<lparr>raw_planner = fst (planner_agent m req), raw_search = sr, raw_budget = br\<rparr>,
            metrics = m\<lparr>plans_created := plans_created m + 1, agent_calls := agent_calls m + 4\<rparr>,
            generated_at = now\<rparr>"
  by (simp add: create_plan_def planner_agent_value budget_agent_value summarizer_agent_value
      search_agent_value [where q = "''top attractions in '' @ to_city req"] Let_def)

text \<open>
  C6. One run of \<open>create_plan\<close> returns a response and leaves the counters with
  \<open>plans_created\<close> one higher and \<open>agent_calls\<close> four higher, nothing else changed; each of
  the four agents adds one to \<open>agent_calls\<close> and changes nothing else.
\<close>

theorem create_plan_metrics:
  "snd (create_plan m r uid now req) =
     m\<lparr>plans_created := plans_created m + 1, agent_calls := agent_calls m + 4\<rparr> \<and>
   plans_created (snd (create_plan m r uid now req)) = plans_created m + 1 \<and>
   agent_calls (snd (create_plan m r uid now req)) = agent_calls m + 4 \<and>
   (\<exists>resp. fst (create_plan m r uid now req) = Inr resp \<and>
      metrics resp = snd (create_plan m r uid now req)) \<and>
   snd (planner_agent m req) = m\<lparr>agent_calls := agent_calls m + 1\<rparr> \<and>
   snd (search_agent m r t) = m\<lparr>agent_calls := agent_calls m + 1\<rparr> \<and>
   snd (budget_agent m sr req) = m\<lparr>agent_calls := agent_calls m + 1\<rparr> \<and>
   snd (summarizer_agent m uid req sr br) = m\<lparr>agent_calls := agent_calls m + 1\<rparr>"
proof -
  obtain resp where "fst (create_plan m r uid now req) = Inr resp"
    and "metrics resp = m\<lparr>plans_created := plans_created m + 1, agent_calls := agent_calls m + 4\<rparr>"
    using create_plan_value [of m r req uid now] by auto
  then show ?thesis
    by (simp add: create_plan_counters planner_agent_value search_agent_metrics
        budget_agent_value summarizer_agent_value)
qed

text \<open>
  C10. For a request of zero or fewer days the run still returns a response; its itinerary
  is empty, while its budget is the one of a single day: food 400, transport 250 and one
  night in the cheaper hotel. The itinerary's length and the days charged differ.
\<close>

theorem nonpositive_days_diverge:
  assumes "days req \<le> 0"
  shows "\<exists>resp. fst (create_plan m r uid now req) = Inr resp \<and>
           itinerary (summary resp) = [] \<and>
           length (itinerary (summary resp)) \<noteq> nat (max 1 (days req)) \<and>
           sum_budget (summary resp) = raw_budget (raw resp) \<and>
           food (breakdown (sum_budget (summary resp))) = 400 \<and>
           transport (breakdown (sum_budget (summary resp))) = 250 \<and>
           flight (breakdown (sum_budget (summary resp))) = min (randint_1 r) (randint_2 r) \<and>
           hotel_per_night (breakdown (sum_budget (summary resp))) = min (randint_3 r) (randint_4 r) \<and>
           total (sum_budget (summary resp)) =
             flight (breakdown (sum_budget (summary resp)))
               + hotel_per_night (breakdown (sum_budget (summary resp))) * 1 + 400 + 250"
proof -
  have d: "max 1 (days req) = 1" and n: "nat (days req) = 0"
    using assms by simp_all
  show ?thesis
    by (simp add: create_plan_def planner_agent_value budget_agent_value summarizer_agent_value
        search_agent_value [where q = "''top attractions in '' @ to_city req"] Let_def d n)
qed

theorem nonpositive_days_diverge_witness:
  "days (mk_PlanRequest ''Delhi'' ''Goa'' 20000 0) \<le> 0 \<and>
   (\<exists>resp. fst (create_plan METRICS_init scenario_draws ''id-1'' ''2025-01-01 00:00:00''
                 (mk_PlanRequest ''Delhi'' ''Goa'' 20000 0)) = Inr resp \<and>
      itinerary (summary resp) = [] \<and>
      food (breakdown (sum_budget (summary resp))) = 400 \<and>
      transport (breakdown (sum_budget (summary resp))) = 250 \<and>
      flight (breakdown (sum_budget (summary resp))) = 4000 \<and>
      hotel_per_night (breakdown (sum_budget (summary resp))) = 1000 \<and>
      total (sum_budget (summary resp)) = 5650)"
proof -
  have d: "days (mk_PlanRequest ''Delhi'' ''Goa'' 20000 0) \<le> 0"
    by (simp add: mk_PlanRequest_def)
  from nonpositive_days_diverge [OF d, of METRICS_init scenario_draws "''id-1''" "''2025-01-01 00:00:00''"]
  show ?thesis
    using d by (auto simp: scenario_draws_def)
qed

text \<open>
  C4. A request is not coerced: one built with 0 days has 0 days, and the run on it ends
  with an empty itinerary, which a summary stage handed at least one day would not build.
\<close>

theorem plan_request_days_counterexample:
  "days (mk_PlanRequest ''Delhi'' ''Goa'' 20000 0) = 0 \<and>
   \<not> 1 \<le> days (mk_PlanRequest ''Delhi'' ''Goa'' 20000 0) \<and>
   \<not> isl (fst (create_plan METRICS_init scenario_draws ''id-1'' ''2025-01-01 00:00:00''
                  (mk_PlanRequest ''Delhi'' ''Goa'' 20000 0))) \<and>
   itinerary (summary (projr (fst (create_plan METRICS_init scenario_draws ''id-1''
                                     ''2025-01-01 00:00:00''
                                     (mk_PlanRequest ''Delhi'' ''Goa'' 20000 0))))) = []"
  by (simp add: create_plan_def planner_agent_value budget_agent_value summarizer_agent_value
      search_agent_value [where q = "''top attractions in Goa''"] Let_def mk_PlanRequest_def)

text \<open>
  C4, as the code has it. A constructed request keeps the number of days it was given. The
  minimum of one day is applied inside \<open>budget_agent\<close> alone, to its own copy of the number,
  so the budget always charges food and transport for at least one day.
\<close>

theorem plan_request_days_as_given:
  "days (mk_PlanRequest f t b d) = d \<and>
   (\<exists>br. fst (budget_agent m sr (mk_PlanRequest f t b d)) = Inr br \<and>
      food (breakdown br) = 400 * max 1 d \<and> transport (breakdown br) = 250 * max 1 d \<and>
      400 \<le> food (breakdown br) \<and> 250 \<le> transport (breakdown br))"
  by (simp add: budget_agent_value mk_PlanRequest_def)

end
